theory Spec2Isabelle
  imports Main
begin

section \<open>Values of the host language\<close>

text \<open>
  The resolver of \<^verbatim>\<open>src/satpam.ts\<close> is typed over strings, but at run time its token
  fields also hold \<^verbatim>\<open>undefined\<close> (a field never assigned, a missing property) and,
  through inherited properties, values that are not strings at all.  \<open>JOther\<close> stands
  for any value that is truthy, not nullish and not a string (a function, an object, a
  positive number).
\<close>

datatype jsval = JUndefined | JNull | JStr string | JOther

text \<open>Truthiness as \<^verbatim>\<open>if (v)\<close> and \<^verbatim>\<open>!v\<close> test it.\<close>

fun truthy :: "jsval \<Rightarrow> bool" where
  "truthy JUndefined = False"
| "truthy JNull = False"
| "truthy (JStr s) = (s \<noteq> [])"
| "truthy JOther = True"

text \<open>The left operand of \<^verbatim>\<open>??\<close> is replaced exactly when it is nullish.\<close>

fun nullish :: "jsval \<Rightarrow> bool" where
  "nullish JUndefined = True"
| "nullish JNull = True"
| "nullish _ = False"

definition nullish_coalesce :: "jsval \<Rightarrow> jsval \<Rightarrow> jsval" where
  "nullish_coalesce a b = (if nullish a then b else a)"

text \<open>
  \<^verbatim>\<open>s.split(c)\<close> for a one-character separator: every occurrence of the separator
  cuts, so the result always has at least one element (\<^verbatim>\<open>''.split('&')\<close> is
  \<^verbatim>\<open>['']\<close>).  The accumulator holds the current piece, reversed.
\<close>

fun split_from :: "char \<Rightarrow> string \<Rightarrow> string \<Rightarrow> string list" where
  "split_from c piece [] = [rev piece]"
| "split_from c piece (x # xs) =
     (if x = c then rev piece # split_from c [] xs else split_from c (x # piece) xs)"

definition str_split :: "string \<Rightarrow> char \<Rightarrow> string list" where
  "str_split s c = split_from c [] s"

text \<open>\<^verbatim>\<open>s.includes(c)\<close> for a one-character needle.\<close>

definition str_includes :: "string \<Rightarrow> char \<Rightarrow> bool" where
  "str_includes s c = (c \<in> set s)"

text \<open>
  Reading an array of strings by index: the element, or \<^verbatim>\<open>undefined\<close> past the end
  (\<^verbatim>\<open>val[1]\<close> of a pair without \<^verbatim>\<open>=\<close>, the second name of a destructuring).
\<close>

definition at_index :: "string list \<Rightarrow> nat \<Rightarrow> jsval" where
  "at_index xs i = (if i < length xs then JStr (xs ! i) else JUndefined)"

text \<open>A value used as a property key is converted to a string.\<close>

fun property_key :: "jsval \<Rightarrow> string" where
  "property_key (JStr s) = s"
| "property_key JUndefined = ''undefined''"
| "property_key JNull = ''null''"
| "property_key JOther = ''[object Object]''"

subsection \<open>Plain objects used as dictionaries\<close>

text \<open>
  The reducer of \<^verbatim>\<open>_urlParamCheck\<close> starts from the literal \<^verbatim>\<open>{}\<close>, an object whose
  prototype is \<^verbatim>\<open>Object.prototype\<close>.  Its own properties are a map; a read that finds
  no own property continues in the prototype, whose members are all truthy and none a
  string.  The key \<^verbatim>\<open>__proto__\<close> is an accessor of the prototype: assigning a string
  or \<^verbatim>\<open>undefined\<close> to it (the reducer assigns nothing else) stores nothing, and
  reading it gives the prototype object.
\<close>

definition object_prototype_members :: "string list" where
  "object_prototype_members =
     [''constructor'', ''hasOwnProperty'', ''isPrototypeOf'', ''propertyIsEnumerable'',
      ''toLocaleString'', ''toString'', ''valueOf'', ''__defineGetter__'',
      ''__defineSetter__'', ''__lookupGetter__'', ''__lookupSetter__'']"

definition obj_set :: "(string \<rightharpoonup> jsval) \<Rightarrow> string \<Rightarrow> jsval \<Rightarrow> (string \<rightharpoonup> jsval)" where
  "obj_set acc k v =
     (if k = ''__proto__'' then acc else acc(k \<mapsto> v))"

definition obj_get :: "(string \<rightharpoonup> jsval) \<Rightarrow> string \<Rightarrow> jsval" where
  "obj_get acc k =
     (if k = ''__proto__'' then JOther
      else case acc k of
             Some v \<Rightarrow> v
           | None \<Rightarrow> if k \<in> set object_prototype_members then JOther else JUndefined)"

section \<open>The data of the resolver\<close>

text \<open>\<^verbatim>\<open>SatpamSession\<close>: the declared type of \<open>token\<close> is string; the field holds
  whatever the code stores there.\<close>

record SatpamSession =
  status :: bool
  token :: jsval

text \<open>\<^verbatim>\<open>SatpamOptions\<close>: every field is optional.\<close>

record SatpamOptions =
  opt_name :: "string option"
  opt_urlCheck :: "string option"
  opt_autoSetCookie :: "bool option"

text \<open>
  A structured URL (\<^verbatim>\<open>URL\<close> instance), as far as \<^verbatim>\<open>verify\<close> reads it: the entries of
  \<^verbatim>\<open>searchParams\<close> and the fragment.  The \<^verbatim>\<open>hash\<close> getter of the platform returns the
  empty string for an empty fragment and otherwise the fragment behind a \<^verbatim>\<open>#\<close>.
\<close>

record URL =
  searchParams :: "(string \<times> string) list"
  fragment :: string

definition hash :: "URL \<Rightarrow> string" where
  "hash u = (if fragment u = [] then [] else CHR ''#'' # fragment u)"

text \<open>\<^verbatim>\<open>URLSearchParams.has(k)\<close>.\<close>

definition has :: "(string \<times> string) list \<Rightarrow> string \<Rightarrow> bool" where
  "has queries k = (k \<in> set (map fst queries))"

text \<open>
  \<^verbatim>\<open>queries[k]\<close> on a \<^verbatim>\<open>URLSearchParams\<close> object is a property read, not a parameter
  lookup: the object has no own string-keyed properties, so the read finds a member of
  its prototype chain or nothing.  (\<^verbatim>\<open>size\<close> is positive wherever \<^verbatim>\<open>verify\<close> reads
  it, since \<^verbatim>\<open>has\<close> has just succeeded.)
\<close>

definition searchParams_members :: "string list" where
  "searchParams_members =
     [''append'', ''delete'', ''entries'', ''forEach'', ''get'', ''getAll'', ''has'',
      ''keys'', ''set'', ''size'', ''sort'', ''values'', ''__proto__'']"

definition searchParams_property :: "(string \<times> string) list \<Rightarrow> string \<Rightarrow> jsval" where
  "searchParams_property queries k =
     (if k \<in> set searchParams_members \<or> k \<in> set object_prototype_members
      then JOther else JUndefined)"

text \<open>\<^verbatim>\<open>request.url\<close>: a string, a \<^verbatim>\<open>URL\<close> instance, or absent.\<close>

datatype url_value = UrlAbsent | UrlString string | UrlInstance URL

text \<open>\<^verbatim>\<open>!this.request.url\<close>: absent and the empty string are falsy, an object never is.\<close>

fun url_falsy :: "url_value \<Rightarrow> bool" where
  "url_falsy UrlAbsent = True"
| "url_falsy (UrlString s) = (s = [])"
| "url_falsy (UrlInstance u) = False"

text \<open>
  \<^verbatim>\<open>request.headers\<close>, declared \<^verbatim>\<open>object | Headers\<close>.  When it is \<^verbatim>\<open>null\<close> or
  \<^verbatim>\<open>undefined\<close> the read \<^verbatim>\<open>headers['cookie']\<close> throws; otherwise the read gives a value,
  which is all \<^verbatim>\<open>verify\<close> uses of the headers.
\<close>

datatype request_headers = RequestHeadersNull | RequestHeaders jsval

record request =
  request_headers :: request_headers
  url :: url_value

text \<open>
  \<^verbatim>\<open>response.headers\<close>, as \<^verbatim>\<open>setSession\<close> probes it.  \<^verbatim>\<open>typeof null\<close> is \<^verbatim>\<open>'object'\<close>, so
  a \<^verbatim>\<open>null\<close> passes the first test and the read \<^verbatim>\<open>headers['setHeader']\<close> throws.
  Anything else whose \<^verbatim>\<open>typeof\<close> is not \<^verbatim>\<open>'object'\<close> (\<^verbatim>\<open>undefined\<close> on the client side)
  is \<open>HeadersNotObject\<close>.  For an object, the two flags say whether
  \<^verbatim>\<open>headers['setHeader']\<close> is a function and whether \<^verbatim>\<open>headers\<close> is a \<^verbatim>\<open>Headers\<close>
  instance.
\<close>

datatype response_headers =
    HeadersNull
  | HeadersNotObject
  | HeadersObject (setHeader_is_function: bool) (instanceof_Headers: bool)

record response =
  response_headers :: response_headers

text \<open>What \<^verbatim>\<open>setSession\<close> writes, in the order of the writes.\<close>

datatype effect =
    SetHeaderCall string string
  | HeadersSet string string
  | PropertyAssign string string
  | DocumentCookie string

text \<open>
  What can go wrong inside the resolver: the hook fails (throws or rejects), or a
  property is read from or written to \<^verbatim>\<open>null\<close> or \<^verbatim>\<open>undefined\<close>.
\<close>

datatype error = HookFailure | TypeError

type_synonym CookieSerializeOptions = "(string \<times> jsval) list"

text \<open>
  What the module takes from outside itself.  The two functions imported from
  \<^verbatim>\<open>./utility\<close> are not among the sources; the resolver takes them as parameters:
  \<open>parseCookies\<close> maps the value of the cookie header to a mapping from names to
  values, \<open>serializeCookie\<close> a name, a value and options to a header string.
  \<open>window_in_globalThis\<close> is the test \<^verbatim>\<open>'window' in globalThis\<close>, and
  \<open>window_has_document\<close> says whether \<^verbatim>\<open>window.document\<close> is an object, so that
  \<^verbatim>\<open>window.document.cookie\<close> can be assigned; without it the assignment throws.
\<close>

record env =
  parseCookies :: "jsval \<Rightarrow> (string \<rightharpoonup> string)"
  serializeCookie :: "string \<Rightarrow> jsval \<Rightarrow> CookieSerializeOptions \<Rightarrow> string"
  window_in_globalThis :: bool
  window_has_document :: bool

text \<open>\<^verbatim>\<open>cookie[name]\<close> on the parsed mapping.\<close>

definition cookie_entry :: "(string \<rightharpoonup> string) \<Rightarrow> string \<Rightarrow> jsval" where
  "cookie_entry cookie k = (case cookie k of Some v \<Rightarrow> JStr v | None \<Rightarrow> JUndefined)"

text \<open>
  The class \<^verbatim>\<open>Satpam\<close>.  \<open>found_token\<close> is the private field \<^verbatim>\<open>token\<close> (``found
  token''), renamed apart from the session's field.  The hook may fail (throw or
  reject), which \<^verbatim>\<open>await\<close> turns into a failure of \<^verbatim>\<open>verify\<close>; \<open>None\<close> is a hook that
  is not a function.  The field \<open>effects\<close> is not the class's own: it records the
  writes \<^verbatim>\<open>setSession\<close> has made to the response or the document, oldest first.
\<close>

record Satpam =
  request :: request
  response :: response
  found_token :: jsval
  session :: SatpamSession
  name :: string
  urlCheck :: string
  hook :: "(jsval \<Rightarrow> error + jsval) option"
  autoSetCookie :: bool
  effects :: "effect list"

text \<open>
  The outcome of an operation: what it returns, or the error it throws, together with
  the resolver as the operation leaves it.  An operation that throws keeps the
  assignments it made before the throw.
\<close>

type_synonym 'a outcome = "(error + 'a) \<times> Satpam"

section \<open>The operations\<close>

text \<open>
  The constructor.  \<^verbatim>\<open>opt.x ?? d\<close> takes the default for a missing option.  The fields
  \<^verbatim>\<open>token\<close> and \<^verbatim>\<open>hook\<close> are not assigned, so they start \<^verbatim>\<open>undefined\<close>.
\<close>

definition Satpam_constructor :: "request \<Rightarrow> response \<Rightarrow> SatpamOptions \<Rightarrow> Satpam" where
  "Satpam_constructor req res opt =
     \<lparr> request = req,
       response = res,
       found_token = JUndefined,
       session = \<lparr> status = False, token = JStr [] \<rparr>,
       name = (case opt_name opt of Some n \<Rightarrow> n | None \<Rightarrow> ''satpam''),
       urlCheck = (case opt_urlCheck opt of Some c \<Rightarrow> c | None \<Rightarrow> []),
       hook = None,
       autoSetCookie = (case opt_autoSetCookie opt of Some b \<Rightarrow> b | None \<Rightarrow> True),
       effects = [] \<rparr>"

text \<open>
  \<^verbatim>\<open>setSession(token = '', opt = {})\<close>.  A default parameter replaces \<^verbatim>\<open>undefined\<close>
  only (an omitted argument is \<^verbatim>\<open>undefined\<close>); then \<^verbatim>\<open>token ?? this.token\<close>; then the
  early return on a falsy token, which returns \<^verbatim>\<open>undefined\<close> (\<open>None\<close>).  The
  session is assigned from the field \<^verbatim>\<open>this.token\<close>, the cookie string is made from
  the local \<^verbatim>\<open>token\<close>.  \<^verbatim>\<open>this.name ?? 'satpam'\<close> is \<^verbatim>\<open>this.name\<close>, a string.
  The session is assigned before the headers are probed, so the two throws (headers
  that are \<^verbatim>\<open>null\<close>; a \<^verbatim>\<open>window\<close> without a document) leave the new session in place.
\<close>

definition setSession ::
  "env \<Rightarrow> jsval \<Rightarrow> CookieSerializeOptions option \<Rightarrow> Satpam \<Rightarrow> string option outcome" where
  "setSession e token_arg opt_arg s =
     (let token0 = (if token_arg = JUndefined then JStr [] else token_arg);
          opt = (case opt_arg of None \<Rightarrow> [] | Some given \<Rightarrow> given);
          token1 = nullish_coalesce token0 (found_token s)
      in if \<not> truthy token1 then (Inr None, s)
         else
           (let cookieString = serializeCookie e (name s) token1 opt;
                s1 = s\<lparr> session := \<lparr> status = True, token = found_token s \<rparr> \<rparr>
            in case response_headers (response s1) of
                 HeadersNull \<Rightarrow> (Inl TypeError, s1)
               | HeadersObject setHeader_function is_Headers \<Rightarrow>
                   (if setHeader_function then
                      (Inr (Some cookieString),
                       s1\<lparr> effects := effects s1 @ [SetHeaderCall ''Set-Cookie'' cookieString] \<rparr>)
                    else if is_Headers then
                      (Inr (Some cookieString),
                       s1\<lparr> effects := effects s1 @ [HeadersSet ''Set-Cookie'' cookieString] \<rparr>)
                    else
                      (Inr (Some cookieString),
                       s1\<lparr> effects := effects s1 @ [PropertyAssign ''Set-Cookie'' cookieString] \<rparr>))
               | HeadersNotObject \<Rightarrow>
                   (if window_in_globalThis e then
                      (if window_has_document e then
                         (Inr (Some cookieString),
                          s1\<lparr> effects := effects s1 @ [DocumentCookie cookieString] \<rparr>)
                       else (Inl TypeError, s1))
                    else (Inr (Some cookieString), s1))))"

text \<open>\<^verbatim>\<open>getSession()\<close>.\<close>

definition getSession :: "Satpam \<Rightarrow> SatpamSession" where
  "getSession s = session s"

text \<open>\<^verbatim>\<open>typeof v === 'string'\<close>.\<close>

fun typeof_string :: "jsval \<Rightarrow> bool" where
  "typeof_string (JStr s) = True"
| "typeof_string _ = False"

text \<open>
  \<^verbatim>\<open>_processToken(token)\<close>.  The comparison \<^verbatim>\<open>token === ''\<close> is strict, so a token
  that is \<^verbatim>\<open>undefined\<close> takes the second half.  Each half ends in the same two-way
  choice on \<^verbatim>\<open>autoSetCookie\<close>, written out twice as in the source.  The call
  \<^verbatim>\<open>this.setSession(this.token)\<close> passes one argument and drops the result; when it
  throws, so does \<^verbatim>\<open>_processToken\<close>.
\<close>

definition processToken :: "env \<Rightarrow> jsval \<Rightarrow> Satpam \<Rightarrow> SatpamSession outcome" where
  "processToken e token_in s =
     (if token_in = JStr [] then
        (case hook s of
           Some h \<Rightarrow>
             (case h token_in of
                Inl err \<Rightarrow> (Inl err, s)
              | Inr result \<Rightarrow>
                  if typeof_string result \<and> result \<noteq> JStr [] then
                    (let s1 = s\<lparr> found_token := result \<rparr> in
                     if autoSetCookie s1 then
                       (case setSession e (found_token s1) None s1 of
                          (Inl err, s2) \<Rightarrow> (Inl err, s2)
                        | (Inr cookieString, s2) \<Rightarrow> (Inr (session s2), s2))
                     else
                       (let s2 = s1\<lparr> session := \<lparr> status = True, token = found_token s1 \<rparr> \<rparr>
                        in (Inr (session s2), s2)))
                  else
                    (let s1 = s\<lparr> session := \<lparr> status = False, token = JStr [] \<rparr> \<rparr>
                     in (Inr (session s1), s1)))
         | None \<Rightarrow>
             (let s1 = s\<lparr> session := \<lparr> status = False, token = JStr [] \<rparr> \<rparr>
              in (Inr (session s1), s1)))
      else
        (case (case hook s of
                 Some h \<Rightarrow>
                   (case h token_in of
                      Inl err \<Rightarrow> Inl err
                    | Inr result \<Rightarrow> Inr (if truthy result then result else token_in))
               | None \<Rightarrow> Inr token_in) of
           Inl err \<Rightarrow> (Inl err, s)
         | Inr token1 \<Rightarrow>
             (let s1 = s\<lparr> found_token := token1 \<rparr> in
              if autoSetCookie s1 then
                (case setSession e (found_token s1) None s1 of
                   (Inl err, s2) \<Rightarrow> (Inl err, s2)
                 | (Inr cookieString, s2) \<Rightarrow> (Inr (session s2), s2))
              else
                (let s2 = s1\<lparr> session := \<lparr> status = True, token = found_token s1 \<rparr> \<rparr>
                 in (Inr (session s2), s2)))))"

text \<open>
  The first three lines of \<^verbatim>\<open>_urlParamCheck\<close>: split at \<^verbatim>\<open>&\<close>, split every item at
  \<^verbatim>\<open>=\<close>, and assign \<^verbatim>\<open>acc[val[0]] = val[1]\<close> from left to right, so that a later
  item with the same key overwrites an earlier one.  The result is the own properties
  of \<^verbatim>\<open>parsed\<close>.
\<close>

definition parse_params :: "string \<Rightarrow> (string \<rightharpoonup> jsval)" where
  "parse_params params =
     foldl (\<lambda>acc val. obj_set acc (property_key (at_index val 0)) (at_index val 1))
       Map.empty
       (map (\<lambda>item. str_split item CHR ''='') (str_split params CHR ''&''))"

text \<open>
  \<^verbatim>\<open>_urlParamCheck(params)\<close>.  The argument comes from a destructuring or from
  \<^verbatim>\<open>hash\<close>; calling \<^verbatim>\<open>split\<close> on anything but a string is a \<^verbatim>\<open>TypeError\<close>.
\<close>

definition urlParamCheck :: "env \<Rightarrow> jsval \<Rightarrow> Satpam \<Rightarrow> SatpamSession outcome" where
  "urlParamCheck e params s =
     (case params of
        JStr p \<Rightarrow>
          (let parsed = parse_params p in
           if truthy (obj_get parsed (urlCheck s)) then
             (let token1 = obj_get parsed (urlCheck s) in processToken e token1 s)
           else processToken e (JStr []) s)
      | _ \<Rightarrow> (Inl TypeError, s))"

text \<open>
  The block of \<^verbatim>\<open>verify\<close> for a URL that is a string.  \<open>Some r\<close> is a \<^verbatim>\<open>return\<close>
  from inside the block, \<open>None\<close> is falling out of it.
  \<^verbatim>\<open>const [_, queries] = url.split(c)\<close> reads the element at index 1.
\<close>

definition verify_url_string ::
  "env \<Rightarrow> string \<Rightarrow> Satpam \<Rightarrow> SatpamSession outcome option" where
  "verify_url_string e url_s s =
     (case (if str_includes url_s CHR ''?'' then
              (let queries = at_index (str_split url_s CHR ''?'') 1 in
               if queries \<noteq> JStr [] then Some (urlParamCheck e queries s) else None)
            else None) of
        Some r \<Rightarrow> Some r
      | None \<Rightarrow>
          (if str_includes url_s CHR ''#'' then
             (let queries = at_index (str_split url_s CHR ''#'') 1 in
              if queries \<noteq> JStr [] then Some (urlParamCheck e queries s) else None)
           else None))"

text \<open>The block of \<^verbatim>\<open>verify\<close> for a URL that is a \<^verbatim>\<open>URL\<close> instance.\<close>

definition verify_url_instance ::
  "env \<Rightarrow> URL \<Rightarrow> Satpam \<Rightarrow> SatpamSession outcome option" where
  "verify_url_instance e u s =
     (let queries = searchParams u in
      if has queries (urlCheck s) then
        Some (processToken e (searchParams_property queries (urlCheck s)) s)
      else
        (let hash_s = hash u in
         if hash_s \<noteq> [] then Some (urlParamCheck e (JStr hash_s) s) else None))"

text \<open>
  \<^verbatim>\<open>verify(cb = null)\<close>: \<open>None\<close> is the default \<^verbatim>\<open>null\<close>.  The first line reads
  \<^verbatim>\<open>this.request.headers['cookie']\<close> and throws when the headers are \<^verbatim>\<open>null\<close>, before
  anything is assigned.  The hook is stored before anything is looked up.
\<close>

definition verify ::
  "env \<Rightarrow> (jsval \<Rightarrow> error + jsval) option \<Rightarrow> Satpam \<Rightarrow> SatpamSession outcome" where
  "verify e cb s0 =
     (case request_headers (request s0) of
        RequestHeadersNull \<Rightarrow> (Inl TypeError, s0)
      | RequestHeaders cookies \<Rightarrow>
          (let cookie = parseCookies e cookies;
               name_s = name s0;
               s = s0\<lparr> hook := cb \<rparr>
           in if truthy (cookie_entry cookie name_s) then
                processToken e (cookie_entry cookie name_s) s
              else if urlCheck s = [] \<or> url_falsy (url (request s)) then
                processToken e (JStr []) s
              else
                (case (case url (request s) of
                         UrlString url_s \<Rightarrow> verify_url_string e url_s s
                       | _ \<Rightarrow> None) of
                   Some r \<Rightarrow> r
                 | None \<Rightarrow>
                     (case (case url (request s) of
                              UrlInstance u \<Rightarrow> verify_url_instance e u s
                            | _ \<Rightarrow> None) of
                        Some r \<Rightarrow> r
                      | None \<Rightarrow> processToken e (JStr []) s))))"

section \<open>Notions used to state the properties\<close>

text \<open>
  The substring \<^verbatim>\<open>verify\<close> takes for the query (\<open>c\<close> the question mark) or the fragment
  (\<open>c\<close> the number sign) of a string URL: element 1 of the split, empty when the URL
  has no \<open>c\<close>.
\<close>

definition part_after :: "string \<Rightarrow> char \<Rightarrow> string" where
  "part_after url_s c =
     (if str_includes url_s c then
        (case at_index (str_split url_s c) 1 of JStr q \<Rightarrow> q | _ \<Rightarrow> [])
      else [])"

text \<open>A parameter string gives a token for the key \<open>k\<close>: it is not empty and the read of
  \<open>k\<close> from the parsed object is truthy.\<close>

definition gives_token :: "string \<Rightarrow> string \<Rightarrow> bool" where
  "gives_token params k = (params \<noteq> [] \<and> truthy (obj_get (parse_params params) k))"

text \<open>
  Every read the code makes comes up empty: the request has headers, the parsed cookies
  have no truthy entry for the cookie name, and either the URL check is off, or there
  is no URL, or neither the query nor the fragment gives a token for \<open>urlCheck\<close>.  The
  reads are the code's own, inherited properties included.
\<close>

definition reads_come_up_empty :: "env \<Rightarrow> Satpam \<Rightarrow> bool" where
  "reads_come_up_empty e s =
     (case request_headers (request s) of
        RequestHeadersNull \<Rightarrow> False
      | RequestHeaders cookies \<Rightarrow>
          \<not> truthy (cookie_entry (parseCookies e cookies) (name s)) \<and>
          (urlCheck s = [] \<or>
           (case url (request s) of
              UrlAbsent \<Rightarrow> True
            | UrlString url_s \<Rightarrow>
                \<not> gives_token (part_after url_s CHR ''?'') (urlCheck s) \<and>
                \<not> gives_token (part_after url_s CHR ''#'') (urlCheck s)
            | UrlInstance u \<Rightarrow>
                \<not> has (searchParams u) (urlCheck s) \<and> \<not> gives_token (hash u) (urlCheck s))))"

text \<open>
  The write at the end of \<^verbatim>\<open>setSession\<close> throws: the headers are \<^verbatim>\<open>null\<close>, or they are
  not an object and there is a \<^verbatim>\<open>window\<close> without a document.
\<close>

definition write_throws :: "env \<Rightarrow> response \<Rightarrow> bool" where
  "write_throws e res =
     (case response_headers res of
        HeadersNull \<Rightarrow> True
      | HeadersNotObject \<Rightarrow> window_in_globalThis e \<and> \<not> window_has_document e
      | HeadersObject setHeader_function is_Headers \<Rightarrow> False)"

text \<open>
  Token processing of the candidate \<open>t\<close> in state \<open>s\<close> resolves to \<open>tok\<close>: afterwards the
  resolver holds the session \<^verbatim>\<open>{status: true, token: tok}\<close> and the found token \<open>tok\<close>,
  and that session is what is returned; the one exception to the return is the throw
  of the cookie write, which happens after the session is stored.
\<close>

definition resolves_to :: "env \<Rightarrow> jsval \<Rightarrow> Satpam \<Rightarrow> jsval \<Rightarrow> bool" where
  "resolves_to e t s tok =
     (case processToken e t s of
        (r, s') \<Rightarrow>
          session s' = \<lparr> status = True, token = tok \<rparr> \<and> found_token s' = tok \<and>
          r = (if autoSetCookie s \<and> write_throws e (response s) then Inl TypeError
               else Inr \<lparr> status = True, token = tok \<rparr>))"

text \<open>
  The part of the session invariant that every operation keeps: the status is true
  exactly when the session's token is not the empty string, and the found token is
  never the empty string.  It does not say that the token is a string.
\<close>

definition session_consistent :: "Satpam \<Rightarrow> bool" where
  "session_consistent s =
     ((status (session s) \<longleftrightarrow> token (session s) \<noteq> JStr []) \<and> found_token s \<noteq> JStr [])"

section \<open>Sample collaborators and requests\<close>

text \<open>
  Modelled from the spec: \<^verbatim>\<open>parseCookies\<close> and \<^verbatim>\<open>serializeCookie\<close> of \<^verbatim>\<open>./utility\<close> are
  missing from the sources.  The spec asks of the first a mapping from cookie names to
  values, empty for an absent header, and of the second a header string for a name and
  a value.  These two are a minimal pair of that shape (items separated by semicolons,
  name and value by the first equals sign; options ignored), used only to run the
  resolver on concrete requests.
\<close>

definition sample_parseCookies :: "jsval \<Rightarrow> (string \<rightharpoonup> string)" where
  "sample_parseCookies header =
     (case header of
        JStr h \<Rightarrow>
          map_of (map (\<lambda>item. (takeWhile (\<lambda>c. c \<noteq> CHR ''='') item,
                               drop 1 (dropWhile (\<lambda>c. c \<noteq> CHR ''='') item)))
                   (filter (\<lambda>item. CHR ''='' \<in> set item)
                      (map (dropWhile (\<lambda>c. c = CHR '' '')) (str_split h CHR '';''))))
      | _ \<Rightarrow> Map.empty)"

definition sample_serializeCookie :: "string \<Rightarrow> jsval \<Rightarrow> CookieSerializeOptions \<Rightarrow> string" where
  "sample_serializeCookie n v opt = n @ ''='' @ property_key v"

definition server :: env where
  "server = \<lparr> parseCookies = sample_parseCookies,
              serializeCookie = sample_serializeCookie,
              window_in_globalThis = False,
              window_has_document = False \<rparr>"

text \<open>A response whose \<^verbatim>\<open>headers\<close> is a plain object, and one whose \<^verbatim>\<open>headers\<close> is
  \<^verbatim>\<open>null\<close>.\<close>

definition plain_response :: response where
  "plain_response = \<lparr> response_headers = HeadersObject False False \<rparr>"

definition null_response :: response where
  "null_response = \<lparr> response_headers = HeadersNull \<rparr>"

text \<open>A request with the given value of the cookie header and the given URL.\<close>

definition request_of :: "jsval \<Rightarrow> url_value \<Rightarrow> request" where
  "request_of cookies u = \<lparr> request_headers = RequestHeaders cookies, url = u \<rparr>"

text \<open>\<^verbatim>\<open>new Satpam(req, res, { urlCheck: 'tok', autoSetCookie: auto })\<close> with the plain
  response.\<close>

definition resolver :: "request \<Rightarrow> bool \<Rightarrow> Satpam" where
  "resolver req auto =
     Satpam_constructor req plain_response
       \<lparr> opt_name = None, opt_urlCheck = Some ''tok'', opt_autoSetCookie = Some auto \<rparr>"

section \<open>Splitting strings\<close>

lemma split_from_nonempty: "split_from c piece s \<noteq> []"
  by (induction s arbitrary: piece) auto

lemma split_from_two: "c \<in> set s \<Longrightarrow> 2 \<le> length (split_from c piece s)"
proof (induction s arbitrary: piece)
  case Nil
  then show ?case by simp
next
  case (Cons x xs)
  show ?case
  proof (cases "x = c")
    case True
    have "split_from c [] xs \<noteq> []" by (rule split_from_nonempty)
    then have "1 \<le> length (split_from c [] xs)" by (cases "split_from c [] xs") auto
    with True show ?thesis by simp
  next
    case False
    with Cons show ?thesis by simp
  qed
qed




lemma at_index_split_includes:
  "str_includes s c \<Longrightarrow> \<exists>q. at_index (str_split s c) 1 = JStr q"
  using split_from_two [of c s "[]"] by (simp add: str_includes_def str_split_def at_index_def)

section \<open>Cookie precedence\<close>

text \<open>Neither \<^verbatim>\<open>setSession\<close> nor token processing reads the request or \<open>urlCheck\<close>.\<close>

lemma setSession_frame:
  "setSession e t opt (s\<lparr> request := r, urlCheck := c \<rparr>) =
     map_prod id (\<lambda>s'. s'\<lparr> request := r, urlCheck := c \<rparr>) (setSession e t opt s)"
  by (simp add: setSession_def Let_def split: response_headers.split)

lemma processToken_frame:
  "processToken e t (s\<lparr> request := r, urlCheck := c \<rparr>) =
     map_prod id (\<lambda>s'. s'\<lparr> request := r, urlCheck := c \<rparr>) (processToken e t s)"
proof -
  define f where "f = (\<lambda>s'::Satpam. s'\<lparr> request := r, urlCheck := c \<rparr>)"
  have reads: "hook (f s') = hook s'" "autoSetCookie (f s') = autoSetCookie s'"
    "found_token (f s') = found_token s'" "session (f s') = session s'" for s'
    by (simp_all add: f_def)
  have writes: "(f s')\<lparr> found_token := x \<rparr> = f (s'\<lparr> found_token := x \<rparr>)"
    "(f s')\<lparr> session := y \<rparr> = f (s'\<lparr> session := y \<rparr>)" for s' x y
    by (simp_all add: f_def)
  have call: "setSession e x opt (f s') = map_prod id f (setSession e x opt s')" for x opt s'
    unfolding f_def by (rule setSession_frame)
  have "processToken e t (f s) = map_prod id f (processToken e t s)"
    unfolding processToken_def Let_def reads writes call
    by (auto simp: reads split: option.split sum.split prod.split)
  then show ?thesis by (simp add: f_def)
qed

lemma verify_cookie:
  assumes "request_headers (request s) = RequestHeaders cookies"
    and "parseCookies e cookies (name s) = Some v" and "v \<noteq> []"
  shows "verify e cb s = processToken e (JStr v) (s\<lparr> hook := cb \<rparr>)"
  using assms by (simp add: verify_def cookie_entry_def Let_def)

text \<open>
  C1.  Cookie precedence.  When the request has headers and the parsed cookies hold a
  non-empty entry for the cookie name, \<^verbatim>\<open>verify\<close> is token processing of that entry,
  whatever the hook; and running it with any other URL \<open>u\<close> and any other \<open>urlCheck\<close>
  \<open>c\<close> in place gives the same outcome, the final state differing in those two fields
  only: neither is consulted.
\<close>

theorem verify_cookie_precedence:
  assumes "request_headers (request s) = RequestHeaders cookies"
    and "parseCookies e cookies (name s) = Some v" and "v \<noteq> []"
  shows "verify e cb s = processToken e (JStr v) (s\<lparr> hook := cb \<rparr>) \<and>
         (\<forall>u c. verify e cb (s\<lparr> request := (request s)\<lparr> url := u \<rparr>, urlCheck := c \<rparr>) =
                map_prod id
                  (\<lambda>s'. s'\<lparr> request := (request s)\<lparr> url := u \<rparr>, urlCheck := c \<rparr>)
                  (verify e cb s))"
proof -
  have here: "verify e cb s = processToken e (JStr v) (s\<lparr> hook := cb \<rparr>)"
    using assms by (rule verify_cookie)
  have there: "verify e cb (s\<lparr> request := (request s)\<lparr> url := u \<rparr>, urlCheck := c \<rparr>) =
      map_prod id (\<lambda>s'. s'\<lparr> request := (request s)\<lparr> url := u \<rparr>, urlCheck := c \<rparr>)
        (verify e cb s)" for u c
  proof -
    let ?s = "s\<lparr> request := (request s)\<lparr> url := u \<rparr>, urlCheck := c \<rparr>"
    have "request_headers (request ?s) = RequestHeaders cookies"
      using assms(1) by simp
    moreover have "parseCookies e cookies (name ?s) = Some v"
      using assms(2) by simp
    ultimately have "verify e cb ?s = processToken e (JStr v) (?s\<lparr> hook := cb \<rparr>)"
      using assms(3) by (rule verify_cookie)
    also have "?s\<lparr> hook := cb \<rparr> =
        (s\<lparr> hook := cb \<rparr>)\<lparr> request := (request s)\<lparr> url := u \<rparr>, urlCheck := c \<rparr>"
      by simp
    also have "processToken e (JStr v) \<dots> =
        map_prod id (\<lambda>s'. s'\<lparr> request := (request s)\<lparr> url := u \<rparr>, urlCheck := c \<rparr>)
          (processToken e (JStr v) (s\<lparr> hook := cb \<rparr>))"
      by (rule processToken_frame)
    finally show ?thesis using here by simp
  qed
  from here there show ?thesis by blast
qed

theorem verify_cookie_precedence_witness:
  "request_headers
     (request (resolver (request_of (JStr ''satpam=abc'') (UrlString ''http://x/?tok=zzz'')) False))
     = RequestHeaders (JStr ''satpam=abc'') \<and>
   parseCookies server (JStr ''satpam=abc'')
     (name (resolver (request_of (JStr ''satpam=abc'') (UrlString ''http://x/?tok=zzz'')) False))
     = Some ''abc'' \<and>
   ''abc'' \<noteq> [] \<and>
   fst (verify server None
          (resolver (request_of (JStr ''satpam=abc'') (UrlString ''http://x/?tok=zzz'')) False))
     = Inr \<lparr> status = True, token = JStr ''abc'' \<rparr>"
proof -
  let ?s = "resolver (request_of (JStr ''satpam=abc'') (UrlString ''http://x/?tok=zzz'')) False"
  have hdr: "request_headers (request ?s) = RequestHeaders (JStr ''satpam=abc'')"
    by (simp add: resolver_def Satpam_constructor_def request_of_def)
  have entry: "parseCookies server (JStr ''satpam=abc'') (name ?s) = Some ''abc''"
    by (simp add: server_def resolver_def Satpam_constructor_def sample_parseCookies_def str_split_def)
  have nonempty: "''abc'' \<noteq> []" by simp
  have "verify server None ?s = processToken server (JStr ''abc'') (?s\<lparr> hook := None \<rparr>)"
    using verify_cookie_precedence [OF hdr entry nonempty, of None] by blast
  then have "fst (verify server None ?s) = Inr \<lparr> status = True, token = JStr ''abc'' \<rparr>"
    by (simp add: processToken_def resolver_def Satpam_constructor_def)
  with hdr entry nonempty show ?thesis by blast
qed

section \<open>Writing the session\<close>

text \<open>
  C9.  \<^verbatim>\<open>setSession('')\<close> is a no-op in every state and for every options value, given
  or omitted: it returns \<^verbatim>\<open>undefined\<close> without error and the whole state, the session
  and the record of writes included, is unchanged.
\<close>

theorem setSession_empty_token_noop: "setSession e (JStr []) opt s = (Inr None, s)"
  by (simp add: setSession_def nullish_coalesce_def)

text \<open>
  C4.  What the code does when the token argument of \<^verbatim>\<open>setSession\<close> is omitted and the
  last found token is a string \<open>t\<close>: the default parameter has already replaced the
  missing argument by the empty string when \<^verbatim>\<open>token ?? this.token\<close> is evaluated, so the
  call returns \<^verbatim>\<open>undefined\<close> and changes nothing; \<open>t\<close> is neither serialized nor
  persisted.
\<close>

theorem setSession_omitted_token_noop:
  "setSession e JUndefined opt (s\<lparr> found_token := JStr t \<rparr>)
     = (Inr None, s\<lparr> found_token := JStr t \<rparr>)"
  by (simp add: setSession_def nullish_coalesce_def)

text \<open>
  C5.  What the code does for \<^verbatim>\<open>setSession('new')\<close> on a resolver whose last found token
  is \<^verbatim>\<open>'old'\<close>, in every state: the session stored is \<^verbatim>\<open>{status: true, token: 'old'}\<close>,
  while the cookie string, returned unless the write throws, is made from \<^verbatim>\<open>'new'\<close>.
\<close>

theorem setSession_session_token_stale:
  "session (snd (setSession e (JStr ''new'') None (s\<lparr> found_token := JStr ''old'' \<rparr>)))
     = \<lparr> status = True, token = JStr ''old'' \<rparr> \<and>
   fst (setSession e (JStr ''new'') None (s\<lparr> found_token := JStr ''old'' \<rparr>))
     = (if write_throws e (response s) then Inl TypeError
        else Inr (Some (serializeCookie e (name s) (JStr ''new'') [])))"
  by (simp add: setSession_def nullish_coalesce_def write_throws_def Let_def
      split: response_headers.split)

text \<open>
  The construction and every operation keep \<open>session_consistent\<close>, also when they
  throw, and \<^verbatim>\<open>verify\<close> returns the session it stores.
\<close>

lemma constructor_consistent: "session_consistent (Satpam_constructor req res opt)"
  by (simp add: session_consistent_def Satpam_constructor_def)

lemma setSession_consistent:
  "session_consistent s \<Longrightarrow> session_consistent (snd (setSession e t opt s))"
  by (simp add: session_consistent_def setSession_def Let_def split: response_headers.split)

lemma truthy_not_empty: "truthy x \<Longrightarrow> x \<noteq> JStr []"
  by (cases x) auto

lemma processToken_consistent:
  assumes "session_consistent s" and "processToken e t s = (r, s')"
  shows "session_consistent s' \<and> (\<forall>v. r = Inr v \<longrightarrow> v = session s')"
proof -
  have found: "session_consistent (s\<lparr> found_token := x \<rparr>)" if "x \<noteq> JStr []" for x
    using assms(1) that by (simp add: session_consistent_def)
  have call: "session_consistent s2"
    if "setSession e x None (s\<lparr> found_token := x \<rparr>) = (r2, s2)" "x \<noteq> JStr []" for x r2 s2
    using setSession_consistent [OF found [OF that(2)], of e x None] that(1) by simp
  have direct: "session_consistent (s\<lparr> found_token := x, session := \<lparr> status = True, token = x \<rparr> \<rparr>)"
    if "x \<noteq> JStr []" for x
    using that by (simp add: session_consistent_def)
  have none: "session_consistent (s\<lparr> session := \<lparr> status = False, token = JStr [] \<rparr> \<rparr>)"
    using assms(1) by (simp add: session_consistent_def)
  from assms show ?thesis
    unfolding processToken_def Let_def
    by (auto simp: direct none truthy_not_empty
        split: if_splits option.splits sum.splits prod.splits dest: call)
qed

lemma urlParamCheck_consistent:
  assumes "session_consistent s" and "urlParamCheck e p s = (r, s')"
  shows "session_consistent s' \<and> (\<forall>v. r = Inr v \<longrightarrow> v = session s')"
proof (cases "\<exists>q. p = JStr q")
  case True
  with assms(2) obtain t where "processToken e t s = (r, s')"
    by (auto simp: urlParamCheck_def Let_def split: if_splits)
  with assms(1) show ?thesis by (rule processToken_consistent)
next
  case False
  with assms show ?thesis
    by (cases p) (auto simp: urlParamCheck_def)
qed

lemma verify_consistent:
  assumes "session_consistent s" and "verify e cb s = (r, s')"
  shows "session_consistent s' \<and> (\<forall>v. r = Inr v \<longrightarrow> v = getSession s')"
proof (cases "request_headers (request s)")
  case RequestHeadersNull
  with assms show ?thesis by (auto simp: verify_def)
next
  case (RequestHeaders cookies)
  let ?s = "s\<lparr> hook := cb \<rparr>"
  have start: "session_consistent ?s"
    using assms(1) by (simp add: session_consistent_def)
  from assms(2) RequestHeaders have
    "(\<exists>t. processToken e t ?s = (r, s')) \<or> (\<exists>p. urlParamCheck e p ?s = (r, s'))"
    unfolding verify_def verify_url_string_def verify_url_instance_def Let_def
    by (auto split: if_splits option.splits url_value.splits)
  then show ?thesis
    using processToken_consistent [OF start] urlParamCheck_consistent [OF start]
    unfolding getSession_def by blast
qed

text \<open>
  C6.  What the code does for \<^verbatim>\<open>setSession('abc')\<close> right after construction: the stored
  session has status true and a token that is \<^verbatim>\<open>undefined\<close>, not a non-empty string.
\<close>

theorem session_invariant_broken_by_setSession:
  "getSession (snd (setSession e (JStr ''abc'') None (Satpam_constructor req res opt)))
     = \<lparr> status = True, token = JUndefined \<rparr>"
  by (simp add: getSession_def setSession_def nullish_coalesce_def Let_def Satpam_constructor_def
      split: response_headers.split)

section \<open>The hook on a found token\<close>

text \<open>The cookie write of \<^verbatim>\<open>setSession\<close> for a truthy token, in one equation.\<close>

lemma setSession_truthy:
  assumes "truthy tok"
  shows "setSession e tok None (s\<lparr> found_token := tok \<rparr>) =
         (if write_throws e (response s) then
            (Inl TypeError, s\<lparr> found_token := tok, session := \<lparr> status = True, token = tok \<rparr> \<rparr>)
          else
            (Inr (Some (serializeCookie e (name s) tok [])),
             snd (setSession e tok None (s\<lparr> found_token := tok \<rparr>))))
         \<and> session (snd (setSession e tok None (s\<lparr> found_token := tok \<rparr>)))
             = \<lparr> status = True, token = tok \<rparr>
         \<and> found_token (snd (setSession e tok None (s\<lparr> found_token := tok \<rparr>))) = tok"
  using assms
  by (cases tok)
     (simp_all add: setSession_def nullish_coalesce_def write_throws_def Let_def
        split: response_headers.split)

lemma resolves_to_found:
  assumes "truthy tok" and "t \<noteq> JStr []"
    and "(case hook s of
            Some h \<Rightarrow> (case h t of Inl err \<Rightarrow> Inl err
                        | Inr result \<Rightarrow> Inr (if truthy result then result else t))
          | None \<Rightarrow> Inr t) = Inr tok"
  shows "resolves_to e t s tok"
proof -
  let ?s1 = "s\<lparr> found_token := tok \<rparr>"
  have step: "processToken e t s =
      (if autoSetCookie s then
         (case setSession e tok None ?s1 of
            (Inl err, s2) \<Rightarrow> (Inl err, s2)
          | (Inr cookieString, s2) \<Rightarrow> (Inr (session s2), s2))
       else (Inr \<lparr> status = True, token = tok \<rparr>,
             ?s1\<lparr> session := \<lparr> status = True, token = tok \<rparr> \<rparr>))"
    using assms(2,3) by (simp add: processToken_def Let_def)
  show ?thesis
  proof (cases "autoSetCookie s")
    case False
    with step show ?thesis by (simp add: resolves_to_def)
  next
    case True
    note facts = setSession_truthy [OF assms(1), of e s]
    show ?thesis
    proof (cases "write_throws e (response s)")
      case True
      with facts have "setSession e tok None ?s1 =
          (Inl TypeError, s\<lparr> found_token := tok, session := \<lparr> status = True, token = tok \<rparr> \<rparr>)"
        by simp
      with step \<open>autoSetCookie s\<close> True show ?thesis by (simp add: resolves_to_def)
    next
      case False
      with facts have ok: "setSession e tok None ?s1 =
          (Inr (Some (serializeCookie e (name s) tok [])), snd (setSession e tok None ?s1))"
        by simp
      have "processToken e t s =
          (Inr (session (snd (setSession e tok None ?s1))), snd (setSession e tok None ?s1))"
        using step \<open>autoSetCookie s\<close> by (subst (asm) ok) simp
      with facts False \<open>autoSetCookie s\<close> show ?thesis by (simp add: resolves_to_def)
    qed
  qed
qed

text \<open>
  C7.  Token processing of a non-empty candidate \<open>t\<close>, in every state.  Without a hook
  the candidate is kept.  With a hook, a returned non-empty string replaces the
  candidate, and a returned empty string, \<^verbatim>\<open>undefined\<close> or \<^verbatim>\<open>null\<close> keeps it.  In every
  case the session stored has status true with the resulting token, and it is the
  session returned, unless the cookie write throws (after the session is stored).
\<close>

theorem processToken_hook_replaces_found_token:
  assumes "t \<noteq> []"
  shows "(hook s = None \<longrightarrow> resolves_to e (JStr t) s (JStr t)) \<and>
         (\<forall>h. hook s = Some h \<longrightarrow>
            (\<forall>x. h (JStr t) = Inr (JStr x) \<and> x \<noteq> [] \<longrightarrow> resolves_to e (JStr t) s (JStr x)) \<and>
            (h (JStr t) = Inr (JStr []) \<or> h (JStr t) = Inr JUndefined \<or> h (JStr t) = Inr JNull
               \<longrightarrow> resolves_to e (JStr t) s (JStr t)))"
proof (intro conjI allI impI)
  assume "hook s = None"
  with assms show "resolves_to e (JStr t) s (JStr t)"
    by (intro resolves_to_found) simp_all
next
  fix h x
  assume "hook s = Some h" and "h (JStr t) = Inr (JStr x) \<and> x \<noteq> []"
  with assms show "resolves_to e (JStr t) s (JStr x)"
    by (intro resolves_to_found) simp_all
next
  fix h
  assume "hook s = Some h"
    and "h (JStr t) = Inr (JStr []) \<or> h (JStr t) = Inr JUndefined \<or> h (JStr t) = Inr JNull"
  with assms show "resolves_to e (JStr t) s (JStr t)"
    by (intro resolves_to_found) auto
qed

theorem processToken_hook_replaces_found_token_witness:
  "''old'' \<noteq> [] \<and>
   resolves_to server (JStr ''old'')
     ((resolver (request_of (JStr ''satpam=old'') UrlAbsent) True)\<lparr> hook := None \<rparr>)
     (JStr ''old'') \<and>
   resolves_to server (JStr ''old'')
     ((resolver (request_of (JStr ''satpam=old'') UrlAbsent) True)
        \<lparr> hook := Some (\<lambda>t. Inr (JStr ''new'')) \<rparr>)
     (JStr ''new'') \<and>
   resolves_to server (JStr ''old'')
     ((resolver (request_of (JStr ''satpam=old'') UrlAbsent) True)
        \<lparr> hook := Some (\<lambda>t. Inr JUndefined) \<rparr>)
     (JStr ''old'') \<and>
   resolves_to server (JStr ''old'')
     ((resolver (request_of (JStr ''satpam=old'') UrlAbsent) True)
        \<lparr> hook := None, response := null_response \<rparr>)
     (JStr ''old'') \<and>
   fst (processToken server (JStr ''old'')
          ((resolver (request_of (JStr ''satpam=old'') UrlAbsent) True)
             \<lparr> hook := None, response := null_response \<rparr>))
     = Inl TypeError"
proof -
  let ?s = "resolver (request_of (JStr ''satpam=old'') UrlAbsent) True"
  have nonempty: "''old'' \<noteq> []" by simp
  have a: "resolves_to server (JStr ''old'') (?s\<lparr> hook := None \<rparr>) (JStr ''old'')"
    using processToken_hook_replaces_found_token [OF nonempty, of "?s\<lparr> hook := None \<rparr>" server]
    by simp
  have b: "resolves_to server (JStr ''old'')
      (?s\<lparr> hook := Some (\<lambda>t. Inr (JStr ''new'')) \<rparr>) (JStr ''new'')"
    using processToken_hook_replaces_found_token
      [OF nonempty, of "?s\<lparr> hook := Some (\<lambda>t. Inr (JStr ''new'')) \<rparr>" server]
    by simp
  have c: "resolves_to server (JStr ''old'')
      (?s\<lparr> hook := Some (\<lambda>t. Inr JUndefined) \<rparr>) (JStr ''old'')"
    using processToken_hook_replaces_found_token
      [OF nonempty, of "?s\<lparr> hook := Some (\<lambda>t. Inr JUndefined) \<rparr>" server]
    by simp
  have d: "resolves_to server (JStr ''old'')
      (?s\<lparr> hook := None, response := null_response \<rparr>) (JStr ''old'')"
    using processToken_hook_replaces_found_token
      [OF nonempty, of "?s\<lparr> hook := None, response := null_response \<rparr>" server]
    by simp
  have auto_on: "autoSetCookie (?s\<lparr> hook := None, response := null_response \<rparr>)"
    by (simp add: resolver_def Satpam_constructor_def)
  have throws: "write_throws server (response (?s\<lparr> hook := None, response := null_response \<rparr>))"
    by (simp add: write_throws_def null_response_def)
  have "fst (processToken server (JStr ''old'') (?s\<lparr> hook := None, response := null_response \<rparr>))
      = Inl TypeError"
    using d auto_on throws unfolding resolves_to_def by (auto split: prod.splits)
  with nonempty a b c d show ?thesis by blast
qed

section \<open>No token\<close>

text \<open>
  When every read of the code comes up empty and there is no hook, \<^verbatim>\<open>verify\<close> returns
  \<^verbatim>\<open>{status: false, token: ''}\<close> without error and stores it; nothing else changes.
\<close>

lemma processToken_empty_no_hook:
  "hook s = None \<Longrightarrow>
   processToken e (JStr []) s =
     (Inr \<lparr> status = False, token = JStr [] \<rparr>,
      s\<lparr> session := \<lparr> status = False, token = JStr [] \<rparr> \<rparr>)"
  by (simp add: processToken_def Let_def)

lemma urlParamCheck_no_token:
  "\<not> gives_token p (urlCheck s) \<Longrightarrow> p \<noteq> [] \<Longrightarrow>
   urlParamCheck e (JStr p) s = processToken e (JStr []) s"
  by (simp add: urlParamCheck_def gives_token_def Let_def)

lemma url_part_no_token:
  assumes "\<not> gives_token (part_after url_s c) (urlCheck s)"
  shows "(if str_includes url_s c then
            (let queries = at_index (str_split url_s c) 1 in
             if queries \<noteq> JStr [] then Some (urlParamCheck e queries s) else None)
          else None) \<in> {None, Some (processToken e (JStr []) s)}"
proof (cases "str_includes url_s c")
  case False
  then show ?thesis by simp
next
  case True
  then obtain q where q: "at_index (str_split url_s c) 1 = JStr q"
    using at_index_split_includes by blast
  with True have part: "part_after url_s c = q" by (simp add: part_after_def)
  show ?thesis
  proof (cases "q = []")
    case True
    with \<open>str_includes url_s c\<close> q show ?thesis by simp
  next
    case False
    with assms part have "urlParamCheck e (JStr q) s = processToken e (JStr []) s"
      by (simp add: urlParamCheck_no_token)
    with \<open>str_includes url_s c\<close> q False show ?thesis by simp
  qed
qed

lemma verify_url_string_no_token:
  assumes "\<not> gives_token (part_after url_s CHR ''?'') (urlCheck s)"
    and "\<not> gives_token (part_after url_s CHR ''#'') (urlCheck s)"
  shows "verify_url_string e url_s s \<in> {None, Some (processToken e (JStr []) s)}"
  using url_part_no_token [OF assms(1), of e] url_part_no_token [OF assms(2), of e]
  unfolding verify_url_string_def
  by (auto split: option.splits)

lemma verify_url_instance_no_token:
  assumes "\<not> has (searchParams u) (urlCheck s)" and "\<not> gives_token (hash u) (urlCheck s)"
  shows "verify_url_instance e u s \<in> {None, Some (processToken e (JStr []) s)}"
  using assms by (simp add: verify_url_instance_def Let_def urlParamCheck_no_token)

lemma verify_reads_come_up_empty:
  assumes "reads_come_up_empty e s"
  shows "verify e None s =
           (Inr \<lparr> status = False, token = JStr [] \<rparr>,
            s\<lparr> hook := None, session := \<lparr> status = False, token = JStr [] \<rparr> \<rparr>)"
proof -
  let ?s = "s\<lparr> hook := None \<rparr>"
  from assms obtain cookies where hdr: "request_headers (request s) = RequestHeaders cookies"
    by (cases "request_headers (request s)") (auto simp: reads_come_up_empty_def)
  have no_cookie: "\<not> truthy (cookie_entry (parseCookies e cookies) (name s))"
    using assms hdr by (simp add: reads_come_up_empty_def)
  have "verify e None s = processToken e (JStr []) ?s"
  proof (cases "urlCheck s = [] \<or> url_falsy (url (request s))")
    case True
    with no_cookie hdr show ?thesis by (auto simp: verify_def Let_def)
  next
    case False
    then have check: "urlCheck s \<noteq> []" and there: "\<not> url_falsy (url (request s))" by simp_all
    show ?thesis
    proof (cases "url (request s)")
      case UrlAbsent
      with there show ?thesis by simp
    next
      case (UrlString url_s)
      with assms check hdr have
        "\<not> gives_token (part_after url_s CHR ''?'') (urlCheck ?s)"
        "\<not> gives_token (part_after url_s CHR ''#'') (urlCheck ?s)"
        by (simp_all add: reads_come_up_empty_def)
      then have "verify_url_string e url_s ?s \<in> {None, Some (processToken e (JStr []) ?s)}"
        by (rule verify_url_string_no_token)
      with no_cookie check there UrlString hdr show ?thesis
        by (auto simp: verify_def Let_def)
    next
      case (UrlInstance u)
      with assms check hdr have
        "\<not> has (searchParams u) (urlCheck ?s)" "\<not> gives_token (hash u) (urlCheck ?s)"
        by (simp_all add: reads_come_up_empty_def)
      then have "verify_url_instance e u ?s \<in> {None, Some (processToken e (JStr []) ?s)}"
        by (rule verify_url_instance_no_token)
      with no_cookie check there UrlInstance hdr show ?thesis
        by (auto simp: verify_def Let_def)
    qed
  qed
  then show ?thesis by (simp add: processToken_empty_no_hook)
qed

text \<open>
  C8.  What the code does, without a cookie and without a hook, for three requests that
  carry no token.  With \<^verbatim>\<open>urlCheck = 'constructor'\<close> and the URL \<^verbatim>\<open>/?a=1\<close> the read
  \<^verbatim>\<open>parsed['constructor']\<close> finds the inherited member, so the session returned has
  status true and a token that is not a string.  With \<^verbatim>\<open>urlCheck = 'tok'\<close>, a \<^verbatim>\<open>URL\<close>
  instance whose query is \<^verbatim>\<open>tok=\<close> and \<^verbatim>\<open>autoSetCookie\<close> off, the session returned is
  \<^verbatim>\<open>{status: true, token: undefined}\<close>.  With \<^verbatim>\<open>urlCheck = 'constructor'\<close>, the URL
  \<^verbatim>\<open>/?a=1\<close>, \<^verbatim>\<open>autoSetCookie\<close> on and response headers that are \<^verbatim>\<open>null\<close>, \<^verbatim>\<open>verify\<close>
  throws a \<^verbatim>\<open>TypeError\<close>.
\<close>

theorem verify_no_token_reports_found:
  "fst (verify server None
          (Satpam_constructor (request_of JUndefined (UrlString ''/?a=1'')) plain_response
             \<lparr> opt_name = None, opt_urlCheck = Some ''constructor'',
               opt_autoSetCookie = Some False \<rparr>))
     = Inr \<lparr> status = True, token = JOther \<rparr> \<and>
   fst (verify server None
          (resolver
             (request_of JUndefined
                (UrlInstance \<lparr> searchParams = [(''tok'', [])], fragment = [] \<rparr>)) False))
     = Inr \<lparr> status = True, token = JUndefined \<rparr> \<and>
   fst (verify server None
          (Satpam_constructor (request_of JUndefined (UrlString ''/?a=1'')) null_response
             \<lparr> opt_name = None, opt_urlCheck = Some ''constructor'',
               opt_autoSetCookie = Some True \<rparr>))
     = Inl TypeError"
  by (simp add: verify_def resolver_def Satpam_constructor_def server_def plain_response_def
      null_response_def request_of_def verify_url_string_def verify_url_instance_def
      urlParamCheck_def processToken_def setSession_def nullish_coalesce_def
      parse_params_def obj_get_def obj_set_def str_split_def str_includes_def at_index_def
      has_def hash_def searchParams_property_def searchParams_members_def
      cookie_entry_def sample_parseCookies_def object_prototype_members_def Let_def)

section \<open>Values cut at the second equals sign\<close>








section \<open>The URL as a string and as an object\<close>

text \<open>
  C2.  What the code does for a string URL with a non-empty query and a fragment, no
  cookie and \<^verbatim>\<open>urlCheck = 'tok'\<close>.  The query without the key ends the search: the
  fragment \<^verbatim>\<open>tok=B\<close> is not consulted and no token is found.  The query with the key is
  not cut at the number sign, so the token is \<^verbatim>\<open>A#tok\<close>, not \<^verbatim>\<open>A\<close>.
\<close>

theorem verify_string_url_query_is_final:
  "fst (verify server None
          (resolver (request_of JUndefined (UrlString ''http://x/?a=1#tok=B'')) True))
     = Inr \<lparr> status = False, token = JStr [] \<rparr> \<and>
   fst (verify server None
          (resolver (request_of JUndefined (UrlString ''http://x/?tok=A#tok=B'')) True))
     = Inr \<lparr> status = True, token = JStr ''A#tok'' \<rparr>"
  by (simp add: verify_def resolver_def Satpam_constructor_def server_def plain_response_def
      request_of_def verify_url_string_def urlParamCheck_def processToken_def setSession_def
      nullish_coalesce_def parse_params_def obj_get_def obj_set_def str_split_def
      str_includes_def at_index_def cookie_entry_def sample_parseCookies_def
      object_prototype_members_def Let_def)

text \<open>
  C3.  What the code does for a \<^verbatim>\<open>URL\<close> instance, no cookie and \<^verbatim>\<open>urlCheck = 'tok'\<close>.
  With \<^verbatim>\<open>tok=abc\<close> among the query parameters the token processed is the property
  \<^verbatim>\<open>queries['tok']\<close>, which is \<^verbatim>\<open>undefined\<close>: with \<^verbatim>\<open>autoSetCookie\<close> the session stays
  as constructed and nothing is written, without it the session is
  \<^verbatim>\<open>{status: true, token: undefined}\<close>.  With the fragment \<^verbatim>\<open>tok=abc\<close> the string parsed is
  \<^verbatim>\<open>#tok=abc\<close>, whose only key is \<^verbatim>\<open>#tok\<close>, and no token is found.
\<close>

theorem verify_url_instance_reads_property:
  "(\<lambda>(r, s'). (r, found_token s', effects s'))
     (verify server None
        (resolver (request_of JUndefined
                     (UrlInstance \<lparr> searchParams = [(''tok'', ''abc'')], fragment = [] \<rparr>)) True))
     = (Inr \<lparr> status = False, token = JStr [] \<rparr>, JUndefined, []) \<and>
   (\<lambda>(r, s'). (r, found_token s', effects s'))
     (verify server None
        (resolver (request_of JUndefined
                     (UrlInstance \<lparr> searchParams = [(''tok'', ''abc'')], fragment = [] \<rparr>)) False))
     = (Inr \<lparr> status = True, token = JUndefined \<rparr>, JUndefined, []) \<and>
   (\<lambda>(r, s'). (r, found_token s', effects s'))
     (verify server None
        (resolver (request_of JUndefined
                     (UrlInstance \<lparr> searchParams = [], fragment = ''tok=abc'' \<rparr>)) True))
     = (Inr \<lparr> status = False, token = JStr [] \<rparr>, JUndefined, [])"
  by (simp add: verify_def resolver_def Satpam_constructor_def server_def plain_response_def
      request_of_def verify_url_instance_def urlParamCheck_def processToken_def setSession_def
      nullish_coalesce_def parse_params_def obj_get_def obj_set_def str_split_def at_index_def
      has_def hash_def searchParams_property_def searchParams_members_def
      cookie_entry_def sample_parseCookies_def object_prototype_members_def Let_def)

end
